theory Spec2Isabelle
  imports Main "HOL-Library.Sublist"
begin

section \<open>Data model of main.go\<close>

text \<open>
  \<^verbatim>\<open>const maxContextLength = 5\<close> (line 26): the number of previous exchanges kept in
  the conversation window; the window holds two entries per exchange.
\<close>

definition maxContextLength :: nat where
  "maxContextLength = 5"

record Message =
  Msg :: string

record PromptTemplate =
  SystemMessage :: string
  ContextFormat :: string
  RelevantInfoFormat :: string
  UserQueryFormat :: string

text \<open>
  The shipped template (lines 39-44). The line giving \<^verbatim>\<open>UserQueryFormat\<close> is commented out in
  the source, so the field has Go's zero value, the empty string.
\<close>

definition defaultPromptTemplate :: PromptTemplate where
  "defaultPromptTemplate =
     \<lparr> SystemMessage = ''You are a helpful AI assistant. Provide concise and accurate responses based on the given context and relevant information.Only answer from the given data donot answer from anywhere else or your prior memory. If you are unable to find the answer in the data then simply answer 'I don't know.' How can I assist you further?'',
       ContextFormat = ''Previous conversation:\<newline>%s\<newline>'',
       RelevantInfoFormat = ''Relevant information:\<newline>%s\<newline>'',
       UserQueryFormat = [] \<rparr>"

text \<open>
  \<^verbatim>\<open>schema.Document\<close>: the page content and the metadata map. The program stores only
  strings in the metadata, so the map's values are strings here; the score field is never
  read or written by the program and is left out.
\<close>

record Document =
  PageContent :: string
  Metadata :: "string \<rightharpoonup> string"

text \<open>A Go \<^verbatim>\<open>error\<close> value, with its message.\<close>

datatype error = Err string

section \<open>Library functions the program calls\<close>

text \<open>
  \<^verbatim>\<open>strings.Join(elems, sep)\<close>: the elements with the separator between each two.
\<close>

fun Join :: "string list \<Rightarrow> string \<Rightarrow> string" where
  "Join [] sep = []"
| "Join [x] sep = x"
| "Join (x # y # ys) sep = x @ sep @ Join (y # ys) sep"

text \<open>
  \<^verbatim>\<open>fmt.Sprintf(format, a)\<close> with one string operand, as package fmt's scanning loop
  treats it. Text up to a percent sign is copied. After a percent sign: a second percent
  sign prints one percent sign; the verbs \<^verbatim>\<open>s\<close> and \<^verbatim>\<open>v\<close> print the operand, or
  \<^verbatim>\<open>%!s(MISSING)\<close> when the operand has been used already; the end of the format prints
  \<^verbatim>\<open>%!(NOVERB)\<close>; a verb that fmt does not accept for a string prints
  \<^verbatim>\<open>%!c(string=a)\<close>. When the format is exhausted and the operand has not been used,
  fmt appends \<^verbatim>\<open>%!(EXTRA string=a)\<close>. The boolean is fmt's \<^verbatim>\<open>argNum\<close>: whether the
  operand has been consumed.

  Flags, width, precision, explicit argument indexes, the string verbs
  \<^verbatim>\<open>q\<close>, \<^verbatim>\<open>x\<close>, \<^verbatim>\<open>X\<close> and \<^verbatim>\<open>T\<close>, and verbs of more than one byte are not
  modelled: on a format that has one of them \<open>doPrintf\<close> is not what fmt prints. No
  format of the program has one. The statements below are about the shipped formats,
  about formats whose only directive is one \<^verbatim>\<open>%s\<close>, and about formats with no insertion
  point; on all of these \<open>doPrintf\<close> is what fmt prints. In no case does
  \<^verbatim>\<open>fmt.Sprintf\<close> return an error or panic on a string operand: it always returns a
  string.
\<close>

fun doPrintf :: "string \<Rightarrow> string \<Rightarrow> bool \<Rightarrow> string" where
  "doPrintf [] a used = (if used then [] else ''%!(EXTRA string='' @ a @ '')'')"
| "doPrintf [c] a used =
     (if c = CHR ''%'' then ''%!(NOVERB)'' @ doPrintf [] a used
      else c # doPrintf [] a used)"
| "doPrintf (c # v # rest) a used =
     (if c \<noteq> CHR ''%'' then c # doPrintf (v # rest) a used
      else if v = CHR ''%'' then CHR ''%'' # doPrintf rest a used
      else if v = CHR ''s'' \<or> v = CHR ''v'' then
        (if used then ''%!'' @ [v] @ ''(MISSING)'' else a) @ doPrintf rest a True
      else
        ''%!'' @ [v] @ (if used then ''(MISSING)'' else ''(string='' @ a @ '')'')
          @ doPrintf rest a True)"

definition Sprintf :: "string \<Rightarrow> string \<Rightarrow> string" where
  "Sprintf format a = doPrintf format a False"

text \<open>
  \<^verbatim>\<open>strings.Builder\<close>: the bytes written so far; \<^verbatim>\<open>WriteString\<close> appends.
\<close>

type_synonym Builder = string

definition WriteString :: "Builder \<Rightarrow> string \<Rightarrow> Builder" where
  "WriteString sb s = sb @ s"

section \<open>constructPrompt (lines 226-250)\<close>

definition constructPrompt ::
  "string list \<Rightarrow> Document list \<Rightarrow> string \<Rightarrow> PromptTemplate \<Rightarrow> string" where
  "constructPrompt context relevantDocs userQuery template =
     (let sb = [];
          sb = WriteString sb (SystemMessage template);
          sb = WriteString sb ''\<newline>\<newline>'';
          sb = (if length context > 0 then
                  (let sb = WriteString sb
                              (Sprintf (ContextFormat template) (Join context ''\<newline>''))
                   in WriteString sb ''\<newline>'')
                else sb);
          sb = (if length relevantDocs > 0 then
                  (let relevantInfo =
                         fold (\<lambda>doc relevantInfo.
                                 WriteString (WriteString relevantInfo (PageContent doc))
                                   ''\<newline>'')
                           relevantDocs [];
                       sb = WriteString sb (Sprintf (RelevantInfoFormat template) relevantInfo)
                   in WriteString sb ''\<newline>'')
                else sb);
          sb = WriteString sb (Sprintf (UserQueryFormat template) userQuery)
      in sb)"

section \<open>readDocumentsFromCSV (lines 144-174)\<close>

text \<open>
  \<^verbatim>\<open>fmt.Sprintf("column_%d", i)\<close> for a loop index, which is never negative: the decimal
  digits of the index after the fixed text.
\<close>

definition digit :: "nat \<Rightarrow> char" where
  "digit d = char_of (48 + d)"

fun Itoa :: "nat \<Rightarrow> string" where
  "Itoa n = (if n < 10 then [digit n] else Itoa (n div 10) @ [digit (n mod 10)])"

definition column_key :: "nat \<Rightarrow> string" where
  "column_key i = ''column_'' @ Itoa i"

declare Itoa.simps [simp del]

text \<open>
  The inner loop (lines 167-169): for \<open>i\<close> from 1 below the record's length, store field
  \<open>i\<close> under the key of \<open>i\<close> (line 168).
\<close>

definition set_column :: "string list \<Rightarrow> nat \<Rightarrow> (string \<rightharpoonup> string) \<Rightarrow> (string \<rightharpoonup> string)" where
  "set_column record i m = m(column_key i \<mapsto> record ! i)"

definition add_columns :: "string list \<Rightarrow> (string \<rightharpoonup> string) \<Rightarrow> (string \<rightharpoonup> string)" where
  "add_columns record m = fold (set_column record) [1..<length record] m"

text \<open>
  The outer loop (lines 157-171). \<^verbatim>\<open>uuid.New()\<close> draws a fresh random identifier on every
  call; \<open>uuid_New k\<close> stands for the string of the call number \<open>k\<close>, counted from the
  start of the loop. Records with no field are skipped and draw no identifier.
  (\<^verbatim>\<open>uuid.New\<close> panics only when the system's random source fails; that is not
  modelled.)
\<close>

fun documents_from :: "(nat \<Rightarrow> string) \<Rightarrow> nat \<Rightarrow> string list list \<Rightarrow> Document list" where
  "documents_from uuid_New k [] = []"
| "documents_from uuid_New k (record # records) =
     (if length record < 1 then documents_from uuid_New k records
      else \<lparr> PageContent = record ! 0,
             Metadata = add_columns record [''id'' \<mapsto> uuid_New k] \<rparr>
           # documents_from uuid_New (Suc k) records)"

text \<open>
  The file system as the function sees it: \<^verbatim>\<open>os.Open\<close> fails or gives a file, and
  \<^verbatim>\<open>csv.Reader.ReadAll\<close> on that file fails or gives the parsed records.
\<close>

type_synonym csv_file = "error + string list list"

definition readDocumentsFromCSV ::
  "(string \<Rightarrow> error + csv_file) \<Rightarrow> (nat \<Rightarrow> string) \<Rightarrow> string \<Rightarrow> error + Document list" where
  "readDocumentsFromCSV os_Open uuid_New filename =
     (case os_Open filename of
        Inl err \<Rightarrow> Inl err
      | Inr file \<Rightarrow>
          (case file of
             Inl err \<Rightarrow> Inl err
           | Inr records \<Rightarrow> Inr (documents_from uuid_New 0 records)))"

section \<open>RAG (lines 72-142)\<close>

text \<open>
  What a request meets outside the program. Each constructor call of the set-up gives an
  error or succeeds (lines 77-106); \<open>provision\<close> is the result of
  \<^verbatim>\<open>createCollectionIfNotExists\<close>, whose HTTP exchange with the vector store is
  summarised by the error it returns, if any. \<open>SimilaritySearch\<close> and \<open>Call\<close> are the
  retriever and the responder: by Go's convention, which both libraries follow, a call
  that returns an error returns the zero value (no documents, the empty string) with it,
  so each result is a sum.
\<close>

record collaborators =
  ollama_New :: "error option"
  NewEmbedder :: "error option"
  url_Parse :: "error option"
  qdrant_New :: "error option"
  provision :: "error option"
  os_Open :: "string \<Rightarrow> error + csv_file"
  uuid_New :: "nat \<Rightarrow> string"
  AddDocuments :: "Document list \<Rightarrow> error option"
  SimilaritySearch :: "string \<Rightarrow> nat \<Rightarrow> error + Document list"
  Call :: "string \<Rightarrow> error + string"

text \<open>
  What a request does, in program order: taking and releasing \<^verbatim>\<open>chatContext.mu\<close>, the
  statements that read or write \<^verbatim>\<open>chatContext.Context\<close> (with their source line), the
  two collaborator calls and the two log lines.
\<close>

datatype event =
    MuLock
  | MuUnlock
  | ContextAccess nat
  | Search string
  | Generate string
  | LogSearchError error
  | LogGenerateError error

record reply =
  response :: string
  window :: "string list"
  prompt :: string
  trace :: "event list"

text \<open>\<^verbatim>\<open>log.Fatal\<close> ends the process; otherwise the function returns its string.\<close>

datatype outcome = Fatal error | Returned reply

text \<open>The eviction check (lines 136-138).\<close>

definition evict :: "string list \<Rightarrow> string list" where
  "evict history = (if length history > maxContextLength * 2 then drop 2 history else history)"

text \<open>
  Lines 118-141, once the set-up has succeeded. \<open>history\<close> is \<^verbatim>\<open>chatContext.Context\<close> on
  entry; the reply carries its value on return.
\<close>

definition exchange :: "collaborators \<Rightarrow> string list \<Rightarrow> string \<Rightarrow> reply" where
  "exchange env history msg =
     (let history = history @ [''User: '' @ msg];
          found = SimilaritySearch env msg 3;
          relevantDocs = (case found of Inl err \<Rightarrow> [] | Inr docs \<Rightarrow> docs);
          log1 = (case found of Inl err \<Rightarrow> [LogSearchError err] | Inr docs \<Rightarrow> []);
          prompt = constructPrompt history relevantDocs msg defaultPromptTemplate;
          generated = Call env prompt;
          response = (case generated of Inl err \<Rightarrow> [] | Inr text \<Rightarrow> text);
          log2 = (case generated of Inl err \<Rightarrow> [LogGenerateError err] | Inr text \<Rightarrow> []);
          history = history @ [''Assistant: '' @ response];
          over = (length history > maxContextLength * 2);
          history = evict history
      in \<lparr> response = response,
           window = history,
           prompt = prompt,
           trace = [MuLock, ContextAccess 119, MuUnlock, Search msg] @ log1
                   @ [ContextAccess 127, Generate prompt] @ log2
                   @ [MuLock, ContextAccess 135, ContextAccess 136]
                   @ (if over then [ContextAccess 137] else [])
                   @ [MuUnlock] \<rparr>)"

text \<open>
  The set-up every request runs first (lines 77-116): the first step that returns an error
  ends the process through \<^verbatim>\<open>log.Fatal\<close>.
\<close>

definition startup :: "collaborators \<Rightarrow> error option" where
  "startup env =
     (case ollama_New env of Some err \<Rightarrow> Some err | None \<Rightarrow>
     (case NewEmbedder env of Some err \<Rightarrow> Some err | None \<Rightarrow>
     (case url_Parse env of Some err \<Rightarrow> Some err | None \<Rightarrow>
     (case qdrant_New env of Some err \<Rightarrow> Some err | None \<Rightarrow>
     (case provision env of Some err \<Rightarrow> Some err | None \<Rightarrow>
     (case readDocumentsFromCSV (os_Open env) (uuid_New env) ''healthcare_dataset.csv'' of
        Inl err \<Rightarrow> Some err
      | Inr docs \<Rightarrow> AddDocuments env docs))))))"

definition RAG :: "collaborators \<Rightarrow> string list \<Rightarrow> string \<Rightarrow> outcome" where
  "RAG env history msg =
     (case startup env of
        Some err \<Rightarrow> Fatal err
      | None \<Rightarrow> Returned (exchange env history msg))"

text \<open>
  The handler \<^verbatim>\<open>chat\<close> (lines 55-64). The request body either fails to bind, which is
  answered with status 400, or gives a message, which is answered with status 201 and the
  string \<^verbatim>\<open>RAG\<close> returned. \<open>None\<close> is the process ended by \<^verbatim>\<open>log.Fatal\<close>.
\<close>

datatype answer = JSON nat string string

definition chat ::
  "collaborators \<Rightarrow> string list \<Rightarrow> Message option \<Rightarrow> (answer \<times> string list) option" where
  "chat env history body =
     (case body of
        None \<Rightarrow> Some (JSON 400 ''error'' ''Invalid request'', history)
      | Some msg \<Rightarrow>
          (case RAG env history (Msg msg) of
             Fatal err \<Rightarrow> None
           | Returned r \<Rightarrow> Some (JSON 201 ''message'' (response r), window r)))"

text \<open>
  Requests handled one after the other, each with the collaborators as it meets them,
  starting from a given window. The result is the window after the last request, or
  \<open>None\<close> when a request ended the process.
\<close>

fun serve :: "(collaborators \<times> string) list \<Rightarrow> string list \<Rightarrow> string list option" where
  "serve [] history = Some history"
| "serve ((env, msg) # requests) history =
     (case RAG env history msg of
        Fatal err \<Rightarrow> None
      | Returned r \<Rightarrow> serve requests (window r))"

text \<open>
  The window at process start (lines 46-53): the \<^verbatim>\<open>Context\<close> slice of the global
  \<^verbatim>\<open>chatContext\<close>, empty. The struct's other field, the mutex, is what the events
  \<open>MuLock\<close> and \<open>MuUnlock\<close> take and release.
\<close>

definition chatContext :: "string list" where
  "chatContext = []"

section \<open>Properties the statements below speak of\<close>

text \<open>
  A window of complete pairs: the entries come two by two, a user turn and then the
  assistant turn that answers it.
\<close>

fun complete_pairs :: "string list \<Rightarrow> bool" where
  "complete_pairs [] = True"
| "complete_pairs [x] = False"
| "complete_pairs (u # a # rest) =
     (prefix ''User: '' u \<and> prefix ''Assistant: '' a \<and> complete_pairs rest)"

text \<open>
  A trace in which the window is touched only while the mutex is held; the boolean says
  whether it is held at the start.
\<close>

fun guarded :: "bool \<Rightarrow> event list \<Rightarrow> bool" where
  "guarded held [] = True"
| "guarded held (MuLock # es) = guarded True es"
| "guarded held (MuUnlock # es) = guarded False es"
| "guarded held (ContextAccess line # es) = (held \<and> guarded held es)"
| "guarded held (e # es) = guarded held es"

text \<open>
  The number of operand-consuming directives of a format (its insertion points): percent
  signs followed by a character other than a percent sign, scanned as \<open>doPrintf\<close> scans.
\<close>

fun insertion_points :: "string \<Rightarrow> nat" where
  "insertion_points [] = 0"
| "insertion_points [c] = 0"
| "insertion_points (c # v # rest) =
     (if c \<noteq> CHR ''%'' then insertion_points (v # rest)
      else if v = CHR ''%'' then insertion_points rest
      else Suc (insertion_points rest))"

text \<open>
  The number a string of decimal digits denotes, read from the left.
\<close>

definition digits_value :: "string \<Rightarrow> nat" where
  "digits_value s = foldl (\<lambda>n c. 10 * n + (of_char c - 48)) 0 s"

text \<open>
  Collaborators for concrete runs: a set-up that succeeds on a file of two records of two
  fields each, a retriever that finds nothing, a responder that answers \<^verbatim>\<open>ok\<close>; and
  variants whose retriever or responder returns an error.
\<close>

definition quiet :: collaborators where
  "quiet =
     \<lparr> ollama_New = None, NewEmbedder = None, url_Parse = None, qdrant_New = None,
       provision = None,
       os_Open = (\<lambda>name. Inr (Inr [[''flu'', ''rest''], [''cold'', ''fluids'']])),
       uuid_New = (\<lambda>k. ''id''),
       AddDocuments = (\<lambda>docs. None),
       SimilaritySearch = (\<lambda>query k. Inr []),
       Call = (\<lambda>prompt. Inr ''ok'') \<rparr>"

definition deaf :: collaborators where
  "deaf = quiet \<lparr> SimilaritySearch := (\<lambda>query k. Inl (Err ''search failed'')) \<rparr>"

definition mute :: collaborators where
  "mute = quiet \<lparr> Call := (\<lambda>prompt. Inl (Err ''generation failed'')) \<rparr>"

text \<open>
  A template for concrete runs, each of whose three formats has one insertion point
  between brackets.
\<close>

definition bracket_template :: PromptTemplate where
  "bracket_template =
     \<lparr> SystemMessage = ''S'', ContextFormat = ''C[%s]'', RelevantInfoFormat = ''R[%s]'',
       UserQueryFormat = ''Q[%s]'' \<rparr>"

section \<open>Facts about the model\<close>

lemma relevantInfo_fold:
  "fold (\<lambda>doc relevantInfo. relevantInfo @ PageContent doc @ ''\<newline>'') docs acc
     = acc @ concat (map (\<lambda>doc. PageContent doc @ ''\<newline>'') docs)"
  by (induction docs arbitrary: acc) simp_all

lemma constructPrompt_blocks:
  "constructPrompt context relevantDocs userQuery template =
     SystemMessage template @ ''\<newline>\<newline>''
     @ (if context = [] then []
        else Sprintf (ContextFormat template) (Join context ''\<newline>'') @ ''\<newline>'')
     @ (if relevantDocs = [] then []
        else Sprintf (RelevantInfoFormat template)
               (concat (map (\<lambda>doc. PageContent doc @ ''\<newline>'') relevantDocs))
             @ ''\<newline>'')
     @ Sprintf (UserQueryFormat template) userQuery"
  by (simp add: constructPrompt_def Let_def WriteString_def relevantInfo_fold)

lemma evict_length:
  "length (evict h) = (if 2 * maxContextLength < length h then length h - 2 else length h)"
  by (simp add: evict_def mult.commute)

lemma complete_pairs_append:
  "complete_pairs xs \<Longrightarrow> complete_pairs ys \<Longrightarrow> complete_pairs (xs @ ys)"
  by (induction xs rule: complete_pairs.induct) simp_all

lemma complete_pairs_drop2: "complete_pairs xs \<Longrightarrow> complete_pairs (drop 2 xs)"
  by (induction xs rule: complete_pairs.induct) simp_all

lemma complete_pairs_evict: "complete_pairs xs \<Longrightarrow> complete_pairs (evict xs)"
  by (simp add: evict_def complete_pairs_drop2)

lemma window_exchange:
  "window (exchange env h msg)
     = evict (h @ [''User: '' @ msg, ''Assistant: '' @ response (exchange env h msg)])"
  by (simp add: exchange_def Let_def)

lemma exchange_invariant:
  assumes "length h \<le> 2 * maxContextLength" "even (length h)" "complete_pairs h"
  shows "length (window (exchange env h msg)) \<le> 2 * maxContextLength
       \<and> even (length (window (exchange env h msg)))
       \<and> complete_pairs (window (exchange env h msg))"
proof -
  let ?w = "h @ [''User: '' @ msg, ''Assistant: '' @ response (exchange env h msg)]"
  have cp: "complete_pairs ?w"
    using assms(3) by (intro complete_pairs_append) simp_all
  have len: "length ?w = length h + 2" by simp
  show ?thesis
    unfolding window_exchange
    using assms(1,2) cp len
    by (auto simp: evict_length complete_pairs_evict simp del: length_append)
qed

lemma serve_invariant:
  "serve requests h = Some w \<Longrightarrow> length h \<le> 2 * maxContextLength \<Longrightarrow> even (length h)
   \<Longrightarrow> complete_pairs h
   \<Longrightarrow> length w \<le> 2 * maxContextLength \<and> even (length w) \<and> complete_pairs w"
proof (induction requests arbitrary: h)
  case Nil
  then show ?case by simp
next
  case (Cons rq requests)
  obtain env msg where rq: "rq = (env, msg)" by (cases rq)
  from Cons.prems(1) rq obtain r
    where r: "RAG env h msg = Returned r" and s: "serve requests (window r) = Some w"
    by (auto split: outcome.splits)
  from r have "r = exchange env h msg"
    by (auto simp: RAG_def split: option.splits)
  with exchange_invariant [OF Cons.prems(2,3,4), of env msg]
  have "length (window r) \<le> 2 * maxContextLength" "even (length (window r))"
    "complete_pairs (window r)"
    by simp_all
  from Cons.IH [OF s this] show ?case .
qed

lemma Sprintf_ContextFormat:
  "Sprintf (ContextFormat defaultPromptTemplate) a = ''Previous conversation:\<newline>'' @ a @ ''\<newline>''"
  by (simp add: Sprintf_def defaultPromptTemplate_def)

lemma Sprintf_RelevantInfoFormat:
  "Sprintf (RelevantInfoFormat defaultPromptTemplate) a = ''Relevant information:\<newline>'' @ a @ ''\<newline>''"
  by (simp add: Sprintf_def defaultPromptTemplate_def)

lemma Sprintf_UserQueryFormat:
  "Sprintf (UserQueryFormat defaultPromptTemplate) a = ''%!(EXTRA string='' @ a @ '')''"
  by (simp add: Sprintf_def defaultPromptTemplate_def)

lemma doPrintf_no_insertion_point:
  "insertion_points format = 0 \<Longrightarrow> suffix (''%!(EXTRA string='' @ a @ '')'') (doPrintf format a False)"
proof (induction format rule: insertion_points.induct)
  case 1
  then show ?case by simp
next
  case (2 c)
  then show ?case by (simp add: suffix_def)
next
  case (3 c v rest)
  show ?case
  proof (cases "c = CHR ''%''")
    case True
    with "3.prems" have v: "v = CHR ''%''" and r: "insertion_points rest = 0"
      by (auto split: if_splits)
    from "3.IH"(2) [OF _ v r] True
    have "suffix (''%!(EXTRA string='' @ a @ '')'') (doPrintf rest a False)" by simp
    with True v show ?thesis by (simp add: suffix_Cons)
  next
    case False
    with "3.prems" have "insertion_points (v # rest) = 0" by simp
    from "3.IH"(1) [OF False this] False show ?thesis
      by (simp add: suffix_Cons del: insertion_points.simps)
  qed
qed

lemma constructPrompt_suffix:
  "suffix (Sprintf (UserQueryFormat template) q) (constructPrompt context docs q template)"
  by (simp add: constructPrompt_blocks suffix_def del: append_assoc)

lemma prompt_exchange:
  "prompt (exchange env history msg) =
     constructPrompt (history @ [''User: '' @ msg])
       (case SimilaritySearch env msg 3 of Inl err \<Rightarrow> [] | Inr docs \<Rightarrow> docs)
       msg defaultPromptTemplate"
  by (simp add: exchange_def Let_def)

lemma response_exchange:
  "response (exchange env history msg) =
     (case Call env (prompt (exchange env history msg)) of Inl err \<Rightarrow> [] | Inr text \<Rightarrow> text)"
  by (simp add: exchange_def Let_def)

lemma trace_exchange:
  "trace (exchange env history msg) =
     [MuLock, ContextAccess 119, MuUnlock, Search msg]
     @ (case SimilaritySearch env msg 3 of Inl err \<Rightarrow> [LogSearchError err] | Inr docs \<Rightarrow> [])
     @ [ContextAccess 127, Generate (prompt (exchange env history msg))]
     @ (case Call env (prompt (exchange env history msg)) of
          Inl err \<Rightarrow> [LogGenerateError err] | Inr text \<Rightarrow> [])
     @ [MuLock, ContextAccess 135, ContextAccess 136]
     @ (if 2 * maxContextLength < length history + 2 then [ContextAccess 137] else [])
     @ [MuUnlock]"
  by (simp add: exchange_def Let_def mult.commute)

lemma RAG_started: "startup env = None \<Longrightarrow> RAG env history msg = Returned (exchange env history msg)"
  by (simp add: RAG_def)

lemma RAG_Returned: "RAG env history msg = Returned r \<Longrightarrow> startup env = None \<and> r = exchange env history msg"
  by (auto simp: RAG_def split: option.splits)

lemma Join_snoc: "Join (xs @ [x]) sep = (if xs = [] then x else Join xs sep @ sep @ x)"
  by (induction xs sep rule: Join.induct) simp_all

subsection \<open>Rendering into a format with one insertion point\<close>

lemma doPrintf_plain_char:
  "CHR ''%'' \<noteq> c \<Longrightarrow> doPrintf (c # format) a used = c # doPrintf format a used"
  by (cases format) simp_all

lemma doPrintf_plain_prefix:
  "CHR ''%'' \<notin> set pre \<Longrightarrow> doPrintf (pre @ format) a used = pre @ doPrintf format a used"
  by (induction pre) (simp_all add: doPrintf_plain_char del: doPrintf.simps)

lemma doPrintf_plain_rest:
  "CHR ''%'' \<notin> set post \<Longrightarrow> doPrintf post a True = post"
  using doPrintf_plain_prefix [of post "[]" a True] by simp

lemma Sprintf_one_insertion_point:
  "CHR ''%'' \<notin> set pre \<Longrightarrow> CHR ''%'' \<notin> set post \<Longrightarrow>
     Sprintf (pre @ CHR ''%'' # CHR ''s'' # post) a = pre @ a @ post"
  by (simp add: Sprintf_def doPrintf_plain_prefix del: doPrintf.simps)
     (simp add: doPrintf_plain_rest)

lemma Join_entries:
  "Join (x # xs) sep = x @ concat (map (\<lambda>e. sep @ e) xs)"
  by (induction xs arbitrary: x) simp_all

subsection \<open>Column keys and the metadata loop\<close>

lemma of_char_digit: "d < 10 \<Longrightarrow> of_char (digit d) = 48 + d"
  by (simp add: digit_def)

lemma digits_value_snoc: "digits_value (s @ [c]) = 10 * digits_value s + (of_char c - 48)"
  by (simp add: digits_value_def)

lemma digits_value_Itoa: "digits_value (Itoa n) = n"
proof (induction n rule: Itoa.induct)
  case (1 n)
  show ?case
  proof (cases "n < 10")
    case True
    then show ?thesis
      by (subst Itoa.simps) (simp add: digits_value_def of_char_digit)
  next
    case False
    have "digits_value (Itoa n) = digits_value (Itoa (n div 10) @ [digit (n mod 10)])"
      using False by (subst Itoa.simps) simp
    also have "\<dots> = 10 * (n div 10) + n mod 10"
      using "1.IH" [OF False] by (simp add: digits_value_snoc of_char_digit)
    finally show ?thesis by simp
  qed
qed

lemma Itoa_inject: "Itoa i = Itoa j \<longleftrightarrow> i = j"
  by (metis digits_value_Itoa)

lemma column_key_inject: "column_key i = column_key j \<longleftrightarrow> i = j"
  by (simp add: column_key_def Itoa_inject)

lemma fold_columns_other:
  "k \<notin> column_key ` set is \<Longrightarrow> fold (set_column record) is m k = m k"
  by (induction "is" arbitrary: m) (simp_all add: set_column_def)

lemma fold_columns_at:
  "i \<in> set is \<Longrightarrow> fold (set_column record) is m (column_key i) = Some (record ! i)"
proof (induction "is" arbitrary: m)
  case Nil
  then show ?case by simp
next
  case (Cons j js)
  show ?case
  proof (cases "i \<in> set js")
    case True
    from Cons.IH [OF True] show ?thesis by simp
  next
    case False
    with Cons.prems have "i = j" by simp
    moreover from False have "column_key i \<notin> column_key ` set js"
      by (auto simp: column_key_inject)
    ultimately show ?thesis
      by (simp add: fold_columns_other) (simp add: set_column_def)
  qed
qed

lemma add_columns_at:
  "1 \<le> i \<Longrightarrow> i < length record \<Longrightarrow> add_columns record m (column_key i) = Some (record ! i)"
  by (simp add: add_columns_def fold_columns_at)

lemma documents_from_loaded:
  "list_all2 (\<lambda>doc record. PageContent doc = record ! 0
       \<and> (\<forall>i. 1 \<le> i \<and> i < length record \<longrightarrow> Metadata doc (column_key i) = Some (record ! i)))
     (documents_from new_uuid k records) (filter (\<lambda>record. 1 \<le> length record) records)"
  by (induction records arbitrary: k) (auto simp: add_columns_at Suc_le_eq)

lemma Itoa_1: "Itoa (Suc 0) = ''1''"
  by code_simp

lemma Itoa_2: "Itoa (Suc (Suc 0)) = ''2''"
  by code_simp

lemma documents_example:
  "documents_from (\<lambda>k. ''id'') 0 [[''flu'', ''rest'', ''mild''], [], [''cold'']]
     = [\<lparr>PageContent = ''flu'',
          Metadata = [''id'' \<mapsto> ''id'', ''column_1'' \<mapsto> ''rest'', ''column_2'' \<mapsto> ''mild'']\<rparr>,
        \<lparr>PageContent = ''cold'', Metadata = [''id'' \<mapsto> ''id'']\<rparr>]"
  by (simp add: add_columns_def set_column_def column_key_def upt_rec [of "Suc 0"]
      upt_rec [of 2] upt_rec [of 3] Itoa_1 Itoa_2)

subsection \<open>The concrete collaborators\<close>

lemma startup_quiet: "startup quiet = None"
  by (simp add: startup_def quiet_def readDocumentsFromCSV_def)

lemma startup_mute: "startup mute = None"
  by (simp add: startup_def mute_def quiet_def readDocumentsFromCSV_def)

lemma startup_deaf: "startup deaf = None"
  by (simp add: startup_def deaf_def quiet_def readDocumentsFromCSV_def)

lemma RAG_quiet: "RAG quiet h msg = Returned (exchange quiet h msg)"
  by (simp add: RAG_def startup_quiet)

lemma RAG_mute: "RAG mute h msg = Returned (exchange mute h msg)"
  by (simp add: RAG_def startup_mute)

lemma window_quiet:
  "window (exchange quiet h msg) = evict (h @ [''User: '' @ msg, ''Assistant: ok''])"
  by (simp add: exchange_def Let_def quiet_def)

lemma window_mute:
  "window (exchange mute h msg) = evict (h @ [''User: '' @ msg, ''Assistant: ''])"
  by (simp add: exchange_def Let_def quiet_def mute_def)

lemma prompt_quiet:
  "prompt (exchange quiet chatContext ''hi'')
     = SystemMessage defaultPromptTemplate
       @ ''\<newline>\<newline>Previous conversation:\<newline>User: hi\<newline>\<newline>%!(EXTRA string=hi)''"
  by (simp add: prompt_exchange chatContext_def quiet_def constructPrompt_blocks
      Sprintf_ContextFormat Sprintf_UserQueryFormat)

lemma prompt_deaf:
  "prompt (exchange deaf chatContext ''hi'')
     = SystemMessage defaultPromptTemplate
       @ ''\<newline>\<newline>Previous conversation:\<newline>User: hi\<newline>\<newline>%!(EXTRA string=hi)''"
  by (simp add: prompt_exchange chatContext_def deaf_def quiet_def constructPrompt_blocks
      Sprintf_ContextFormat Sprintf_UserQueryFormat)

section \<open>The conversation window\<close>

text \<open>
  C1. Requests are handled one after the other from the empty window of process start,
  each appending the user turn, then the assistant turn, then running the eviction check.
  After every request that completes, the window has at most \<open>2 * maxContextLength\<close>
  entries (ten, for the constant 5), an even number of them, and they are complete pairs
  of a user turn and an assistant turn. The statement is about any sequence of requests,
  so it holds after each request of a longer sequence as well.
\<close>

theorem window_bound:
  "serve requests chatContext = Some w \<Longrightarrow>
     length w \<le> 2 * maxContextLength \<and> even (length w) \<and> complete_pairs w"
  using serve_invariant [of requests chatContext w]
  by (simp add: chatContext_def)

theorem window_bound_witness:
  "serve (replicate 6 (quiet, ''a'')) chatContext
     = Some (concat (replicate 5 [''User: a'', ''Assistant: ok'']))
   \<and> length (concat (replicate 5 [''User: a'', ''Assistant: ok''])) = 10
   \<and> length (concat (replicate 5 [''User: a'', ''Assistant: ok''])) \<le> 2 * maxContextLength
   \<and> even (length (concat (replicate 5 [''User: a'', ''Assistant: ok''])))
   \<and> complete_pairs (concat (replicate 5 [''User: a'', ''Assistant: ok'']))"
proof -
  have run: "serve (replicate 6 (quiet, ''a'')) chatContext
               = Some (concat (replicate 5 [''User: a'', ''Assistant: ok'']))"
    by (simp add: numeral_eq_Suc RAG_quiet window_quiet evict_def maxContextLength_def
        chatContext_def)
  have len: "length (concat (replicate 5 [''User: a'', ''Assistant: ok''])) = 10"
    by (simp add: numeral_eq_Suc)
  from window_bound [OF run] run len show ?thesis by simp
qed

text \<open>
  C2, as the code has it. The eviction check is a single \<^verbatim>\<open>if\<close> (lines 136-138): when
  the window has more than \<open>2 * maxContextLength\<close> entries it removes the oldest two,
  once. The window is within capacity afterwards exactly when it was over capacity by at
  most one pair on entry.
\<close>

theorem evict_once:
  "2 * maxContextLength < length history \<Longrightarrow>
     evict history = drop 2 history
     \<and> length (evict history) = length history - 2
     \<and> (length (evict history) \<le> 2 * maxContextLength
          \<longleftrightarrow> length history \<le> 2 * maxContextLength + 2)"
  by (auto simp: evict_def mult.commute)

theorem evict_once_witness:
  "2 * maxContextLength < length (replicate 12 ''x'')
   \<and> evict (replicate 12 ''x'') = drop 2 (replicate 12 ''x'')
   \<and> length (evict (replicate 12 ''x'')) = 10
   \<and> length (evict (replicate 12 ''x'')) \<le> 2 * maxContextLength"
proof -
  have over: "2 * maxContextLength < length (replicate 12 ''x'')"
    by (simp add: maxContextLength_def)
  from evict_once [OF over] over show ?thesis
    by (simp add: maxContextLength_def)
qed

text \<open>
  C2, as the claim states it, fails: a window of fourteen entries is over capacity by two
  pairs, and the check leaves twelve entries, still more than ten.
\<close>

theorem evict_over_by_two_pairs:
  "\<not> (\<forall>history. 2 * maxContextLength < length history
        \<longrightarrow> length (evict history) \<le> 2 * maxContextLength)"
proof
  assume "\<forall>history. 2 * maxContextLength < length history
            \<longrightarrow> length (evict history) \<le> 2 * maxContextLength"
  then have "2 * maxContextLength < length (replicate 14 ''x'')
               \<longrightarrow> length (evict (replicate 14 ''x'')) \<le> 2 * maxContextLength"
    by blast
  then show False by (simp add: evict_def maxContextLength_def)
qed

section \<open>Prompt assembly\<close>

text \<open>
  C3, as the code has it. Between the pieces the code writes separators of its own
  (lines 230, 234 and 244), so the prompt is, in this order: the system message and two
  newlines; then, only when the context is not empty, the context entries joined with
  newlines, rendered into the context format, and a newline; then, only when there are
  passages, the passage texts, each followed by a newline, rendered into the
  relevant-information format, and a newline; then, always and last, the query rendered
  into the user-query format. With an empty context no context block is written, and with
  no passages no relevant-information block is written. This is shown for every context,
  passage list and query, for every template whose three formats each consist of text
  without percent signs around one \<^verbatim>\<open>%s\<close>, where rendering puts the text in the place
  of the \<^verbatim>\<open>%s\<close>, and for the shipped template, whose empty user-query format renders the
  query as \<^verbatim>\<open>%!(EXTRA string=\<close>, the query and a closing parenthesis.
\<close>

theorem constructPrompt_layout:
  "(ContextFormat template = cpre @ ''%s'' @ cpost
      \<and> RelevantInfoFormat template = rpre @ ''%s'' @ rpost
      \<and> UserQueryFormat template = upre @ ''%s'' @ upost
      \<and> CHR ''%'' \<notin> set (cpre @ cpost @ rpre @ rpost @ upre @ upost)
    \<longrightarrow>
      constructPrompt context relevantDocs userQuery template =
        SystemMessage template @ ''\<newline>\<newline>''
        @ (case context of
             [] \<Rightarrow> []
           | entry # entries \<Rightarrow>
               cpre @ entry @ concat (map (\<lambda>e. CHR ''\<newline>'' # e) entries) @ cpost @ ''\<newline>'')
        @ (if relevantDocs = [] then []
           else rpre @ concat (map (\<lambda>doc. PageContent doc @ ''\<newline>'') relevantDocs) @ rpost
                @ ''\<newline>'')
        @ upre @ userQuery @ upost)
   \<and> constructPrompt context relevantDocs userQuery defaultPromptTemplate =
        SystemMessage defaultPromptTemplate @ ''\<newline>\<newline>''
        @ (case context of
             [] \<Rightarrow> []
           | entry # entries \<Rightarrow>
               ''Previous conversation:\<newline>'' @ entry
               @ concat (map (\<lambda>e. CHR ''\<newline>'' # e) entries) @ ''\<newline>\<newline>'')
        @ (if relevantDocs = [] then []
           else ''Relevant information:\<newline>''
                @ concat (map (\<lambda>doc. PageContent doc @ ''\<newline>'') relevantDocs)
                @ ''\<newline>\<newline>'')
        @ ''%!(EXTRA string='' @ userQuery @ '')''"
proof (intro conjI impI)
  assume h: "ContextFormat template = cpre @ ''%s'' @ cpost
      \<and> RelevantInfoFormat template = rpre @ ''%s'' @ rpost
      \<and> UserQueryFormat template = upre @ ''%s'' @ upost
      \<and> CHR ''%'' \<notin> set (cpre @ cpost @ rpre @ rpost @ upre @ upost)"
  then have c: "Sprintf (ContextFormat template) a = cpre @ a @ cpost"
    and r: "Sprintf (RelevantInfoFormat template) a = rpre @ a @ rpost"
    and u: "Sprintf (UserQueryFormat template) a = upre @ a @ upost" for a
    by (simp_all add: Sprintf_one_insertion_point)
  show "constructPrompt context relevantDocs userQuery template =
        SystemMessage template @ ''\<newline>\<newline>''
        @ (case context of
             [] \<Rightarrow> []
           | entry # entries \<Rightarrow>
               cpre @ entry @ concat (map (\<lambda>e. CHR ''\<newline>'' # e) entries) @ cpost @ ''\<newline>'')
        @ (if relevantDocs = [] then []
           else rpre @ concat (map (\<lambda>doc. PageContent doc @ ''\<newline>'') relevantDocs) @ rpost
                @ ''\<newline>'')
        @ upre @ userQuery @ upost"
    by (cases "context") (simp_all add: constructPrompt_blocks c r u Join_entries del: Join.simps)
next
  show "constructPrompt context relevantDocs userQuery defaultPromptTemplate =
        SystemMessage defaultPromptTemplate @ ''\<newline>\<newline>''
        @ (case context of
             [] \<Rightarrow> []
           | entry # entries \<Rightarrow>
               ''Previous conversation:\<newline>'' @ entry
               @ concat (map (\<lambda>e. CHR ''\<newline>'' # e) entries) @ ''\<newline>\<newline>'')
        @ (if relevantDocs = [] then []
           else ''Relevant information:\<newline>''
                @ concat (map (\<lambda>doc. PageContent doc @ ''\<newline>'') relevantDocs)
                @ ''\<newline>\<newline>'')
        @ ''%!(EXTRA string='' @ userQuery @ '')''"
    by (cases "context")
       (simp_all add: constructPrompt_blocks Sprintf_ContextFormat Sprintf_RelevantInfoFormat
          Sprintf_UserQueryFormat Join_entries del: Join.simps)
qed

theorem constructPrompt_layout_witness:
  "ContextFormat bracket_template = ''C['' @ ''%s'' @ '']''
   \<and> RelevantInfoFormat bracket_template = ''R['' @ ''%s'' @ '']''
   \<and> UserQueryFormat bracket_template = ''Q['' @ ''%s'' @ '']''
   \<and> CHR ''%'' \<notin> set (''C['' @ '']'' @ ''R['' @ '']'' @ ''Q['' @ '']'')
   \<and> constructPrompt [''User: a'', ''Assistant: b'', ''User: c'']
         [\<lparr>PageContent = ''p1'', Metadata = Map.empty\<rparr>,
          \<lparr>PageContent = ''p2'', Metadata = Map.empty\<rparr>]
         ''c'' bracket_template
       = ''S\<newline>\<newline>C[User: a\<newline>Assistant: b\<newline>User: c]\<newline>R[p1\<newline>p2\<newline>]\<newline>Q[c]''
   \<and> constructPrompt [] [\<lparr>PageContent = ''p1'', Metadata = Map.empty\<rparr>] ''c'' bracket_template
       = ''S\<newline>\<newline>R[p1\<newline>]\<newline>Q[c]''
   \<and> constructPrompt [''User: c''] [] ''c'' bracket_template
       = ''S\<newline>\<newline>C[User: c]\<newline>Q[c]''
   \<and> constructPrompt [''User: c''] [\<lparr>PageContent = ''p1'', Metadata = Map.empty\<rparr>] ''c''
         defaultPromptTemplate
       = SystemMessage defaultPromptTemplate
         @ ''\<newline>\<newline>Previous conversation:\<newline>User: c\<newline>\<newline>Relevant information:\<newline>p1\<newline>\<newline>\<newline>%!(EXTRA string=c)''"
proof -
  have f: "ContextFormat bracket_template = ''C['' @ ''%s'' @ '']''
      \<and> RelevantInfoFormat bracket_template = ''R['' @ ''%s'' @ '']''
      \<and> UserQueryFormat bracket_template = ''Q['' @ ''%s'' @ '']''
      \<and> CHR ''%'' \<notin> set (''C['' @ '']'' @ ''R['' @ '']'' @ ''Q['' @ '']'')"
    by (simp add: bracket_template_def)
  note layout = constructPrompt_layout
    [where template = bracket_template and cpre = "''C[''" and cpost = "'']''"
       and rpre = "''R[''" and rpost = "'']''" and upre = "''Q[''" and upost = "'']''"]
  have s: "SystemMessage bracket_template = ''S''"
    by (simp add: bracket_template_def)
  from layout [THEN conjunct1, rule_format, OF f,
      of "[''User: a'', ''Assistant: b'', ''User: c'']"
         "[\<lparr>PageContent = ''p1'', Metadata = Map.empty\<rparr>,
           \<lparr>PageContent = ''p2'', Metadata = Map.empty\<rparr>]" "''c''"]
  have a: "constructPrompt [''User: a'', ''Assistant: b'', ''User: c'']
         [\<lparr>PageContent = ''p1'', Metadata = Map.empty\<rparr>,
          \<lparr>PageContent = ''p2'', Metadata = Map.empty\<rparr>]
         ''c'' bracket_template
       = ''S\<newline>\<newline>C[User: a\<newline>Assistant: b\<newline>User: c]\<newline>R[p1\<newline>p2\<newline>]\<newline>Q[c]''"
    by (simp add: s)
  from layout [THEN conjunct1, rule_format, OF f,
      of "[]" "[\<lparr>PageContent = ''p1'', Metadata = Map.empty\<rparr>]" "''c''"]
  have b: "constructPrompt [] [\<lparr>PageContent = ''p1'', Metadata = Map.empty\<rparr>] ''c'' bracket_template
       = ''S\<newline>\<newline>R[p1\<newline>]\<newline>Q[c]''"
    by (simp add: s)
  from layout [THEN conjunct1, rule_format, OF f, of "[''User: c'']" "[]" "''c''"]
  have c: "constructPrompt [''User: c''] [] ''c'' bracket_template
       = ''S\<newline>\<newline>C[User: c]\<newline>Q[c]''"
    by (simp add: s)
  from layout [THEN conjunct2,
      of "[''User: c'']" "[\<lparr>PageContent = ''p1'', Metadata = Map.empty\<rparr>]" "''c''"]
  have d: "constructPrompt [''User: c''] [\<lparr>PageContent = ''p1'', Metadata = Map.empty\<rparr>] ''c''
         defaultPromptTemplate
       = SystemMessage defaultPromptTemplate
         @ ''\<newline>\<newline>Previous conversation:\<newline>User: c\<newline>\<newline>Relevant information:\<newline>p1\<newline>\<newline>\<newline>%!(EXTRA string=c)''"
    by simp
  from f a b c d show ?thesis by (simp only: simp_thms)
qed

text \<open>
  C3, as the claim states it, fails: the prompt is not exactly the four pieces one after
  the other. With no context and no passages, the system message \<^verbatim>\<open>S\<close> and the query
  \<^verbatim>\<open>q\<close> rendered as \<^verbatim>\<open>Q[q]\<close> give a prompt with two newlines between them.
\<close>

theorem constructPrompt_writes_separators:
  "constructPrompt [] [] ''q'' bracket_template = ''S\<newline>\<newline>Q[q]''
   \<and> SystemMessage bracket_template @ Sprintf (UserQueryFormat bracket_template) ''q'' = ''SQ[q]''
   \<and> constructPrompt [] [] ''q'' bracket_template
       \<noteq> SystemMessage bracket_template @ Sprintf (UserQueryFormat bracket_template) ''q''"
  by (simp add: constructPrompt_blocks bracket_template_def Sprintf_def)

text \<open>
  C5, as the code has it. Prompt assembly always applies the user-query format to the
  query and always returns a prompt; nothing checks the format. When the format has no
  insertion point, \<^verbatim>\<open>fmt.Sprintf\<close> reports the unused operand in its output, so the
  prompt ends with \<^verbatim>\<open>%!(EXTRA string=\<close>, the query and a closing parenthesis. With the
  shipped template, whose user-query format is empty, every request whose set-up
  succeeds returns, and its prompt ends so.
\<close>

theorem user_query_without_insertion_point:
  "(insertion_points (UserQueryFormat template) = 0 \<longrightarrow>
      suffix (''%!(EXTRA string='' @ userQuery @ '')'')
        (constructPrompt context relevantDocs userQuery template))
   \<and> (startup env = None \<longrightarrow>
        RAG env history msg = Returned (exchange env history msg)
        \<and> suffix (''%!(EXTRA string='' @ msg @ '')'') (prompt (exchange env history msg)))"
proof (intro conjI impI)
  assume "insertion_points (UserQueryFormat template) = 0"
  then have "suffix (''%!(EXTRA string='' @ userQuery @ '')'')
               (Sprintf (UserQueryFormat template) userQuery)"
    unfolding Sprintf_def by (rule doPrintf_no_insertion_point)
  then show "suffix (''%!(EXTRA string='' @ userQuery @ '')'')
               (constructPrompt context relevantDocs userQuery template)"
    using constructPrompt_suffix suffix_order.trans by blast
next
  assume "startup env = None"
  then show "RAG env history msg = Returned (exchange env history msg)"
    by (rule RAG_started)
next
  have "suffix (Sprintf (UserQueryFormat defaultPromptTemplate) msg) (prompt (exchange env history msg))"
    unfolding prompt_exchange by (rule constructPrompt_suffix)
  then show "suffix (''%!(EXTRA string='' @ msg @ '')'') (prompt (exchange env history msg))"
    by (simp only: Sprintf_UserQueryFormat)
qed

theorem user_query_without_insertion_point_witness:
  "insertion_points (UserQueryFormat defaultPromptTemplate) = 0
   \<and> suffix ''%!(EXTRA string=hi)''
        (constructPrompt [''User: hi''] [] ''hi'' defaultPromptTemplate)
   \<and> startup quiet = None
   \<and> RAG quiet chatContext ''hi'' = Returned (exchange quiet chatContext ''hi'')
   \<and> suffix ''%!(EXTRA string=hi)'' (prompt (exchange quiet chatContext ''hi''))"
proof -
  have ip: "insertion_points (UserQueryFormat defaultPromptTemplate) = 0"
    by (simp add: defaultPromptTemplate_def)
  from user_query_without_insertion_point
         [of defaultPromptTemplate "''hi''" "[''User: hi'']" "[]" quiet chatContext "''hi''"]
       ip startup_quiet
  show ?thesis by simp
qed

text \<open>
  C5, as the claim states it, fails: with the shipped template, whose user-query format
  is empty and has no insertion point, the request for \<^verbatim>\<open>hi\<close> does not fail. It returns
  the responder's answer, and the prompt sent is the one below.
\<close>

theorem default_template_does_not_fail_fast:
  "UserQueryFormat defaultPromptTemplate = []
   \<and> insertion_points (UserQueryFormat defaultPromptTemplate) = 0
   \<and> RAG quiet chatContext ''hi'' = Returned (exchange quiet chatContext ''hi'')
   \<and> prompt (exchange quiet chatContext ''hi'')
       = SystemMessage defaultPromptTemplate
         @ ''\<newline>\<newline>Previous conversation:\<newline>User: hi\<newline>\<newline>%!(EXTRA string=hi)''
   \<and> response (exchange quiet chatContext ''hi'') = ''ok''"
  by (simp add: RAG_quiet prompt_quiet response_exchange)
     (simp add: defaultPromptTemplate_def quiet_def)

section \<open>The request pipeline\<close>

text \<open>
  C6. When the set-up has succeeded and the retriever returns an error, the request is
  not aborted: \<^verbatim>\<open>RAG\<close> returns; the prompt is the one assembled from the same context and
  query with no passages, that is the system message, the context block and the rendered
  query, with no relevant-information block; the error is logged; and the responder is
  called with that prompt, its answer being the response.
\<close>

theorem search_error_degrades:
  "startup env = None \<Longrightarrow> SimilaritySearch env msg 3 = Inl err \<Longrightarrow>
     RAG env history msg = Returned (exchange env history msg)
     \<and> prompt (exchange env history msg)
         = constructPrompt (history @ [''User: '' @ msg]) [] msg defaultPromptTemplate
     \<and> prompt (exchange env history msg)
         = SystemMessage defaultPromptTemplate @ ''\<newline>\<newline>''
           @ Sprintf (ContextFormat defaultPromptTemplate)
               (Join (history @ [''User: '' @ msg]) ''\<newline>'') @ ''\<newline>''
           @ Sprintf (UserQueryFormat defaultPromptTemplate) msg
     \<and> take 7 (trace (exchange env history msg))
         = [MuLock, ContextAccess 119, MuUnlock, Search msg, LogSearchError err,
            ContextAccess 127, Generate (prompt (exchange env history msg))]
     \<and> response (exchange env history msg)
         = (case Call env (prompt (exchange env history msg)) of
              Inl err \<Rightarrow> [] | Inr text \<Rightarrow> text)"
proof (intro conjI)
  assume s: "startup env = None" and e: "SimilaritySearch env msg 3 = Inl err"
  show "RAG env history msg = Returned (exchange env history msg)"
    using s by (rule RAG_started)
  show p: "prompt (exchange env history msg)
         = constructPrompt (history @ [''User: '' @ msg]) [] msg defaultPromptTemplate"
    by (simp add: prompt_exchange e)
  show "prompt (exchange env history msg)
         = SystemMessage defaultPromptTemplate @ ''\<newline>\<newline>''
           @ Sprintf (ContextFormat defaultPromptTemplate)
               (Join (history @ [''User: '' @ msg]) ''\<newline>'') @ ''\<newline>''
           @ Sprintf (UserQueryFormat defaultPromptTemplate) msg"
    unfolding p by (simp add: constructPrompt_blocks)
  show "take 7 (trace (exchange env history msg))
         = [MuLock, ContextAccess 119, MuUnlock, Search msg, LogSearchError err,
            ContextAccess 127, Generate (prompt (exchange env history msg))]"
    by (subst trace_exchange) (simp add: e)
  show "response (exchange env history msg)
         = (case Call env (prompt (exchange env history msg)) of
              Inl err \<Rightarrow> [] | Inr text \<Rightarrow> text)"
    by (rule response_exchange)
qed

theorem search_error_degrades_witness:
  "startup deaf = None
   \<and> SimilaritySearch deaf ''hi'' 3 = Inl (Err ''search failed'')
   \<and> RAG deaf chatContext ''hi'' = Returned (exchange deaf chatContext ''hi'')
   \<and> prompt (exchange deaf chatContext ''hi'')
       = constructPrompt [''User: hi''] [] ''hi'' defaultPromptTemplate
   \<and> prompt (exchange deaf chatContext ''hi'')
       = SystemMessage defaultPromptTemplate
         @ ''\<newline>\<newline>Previous conversation:\<newline>User: hi\<newline>\<newline>%!(EXTRA string=hi)''
   \<and> response (exchange deaf chatContext ''hi'') = ''ok''"
proof -
  have e: "SimilaritySearch deaf ''hi'' 3 = Inl (Err ''search failed'')"
    by (simp add: deaf_def)
  have c: "Call deaf p = Inr ''ok''" for p
    by (simp add: deaf_def quiet_def)
  from search_error_degrades [OF startup_deaf e, of chatContext] e startup_deaf prompt_deaf c
  show ?thesis by (simp add: chatContext_def)
qed

text \<open>
  C7, as the code has it. When the set-up has succeeded and the responder returns an
  error, the error is logged and the request goes on with the empty response: an assistant
  turn with empty text is appended to the window, the eviction check runs, and the caller
  receives the empty string, which the handler sends with status 201.
\<close>

theorem generation_error_recorded:
  "startup env = None \<Longrightarrow> Call env (prompt (exchange env history msg)) = Inl err \<Longrightarrow>
     RAG env history msg = Returned (exchange env history msg)
     \<and> response (exchange env history msg) = []
     \<and> window (exchange env history msg)
         = evict (history @ [''User: '' @ msg, ''Assistant: ''])
     \<and> LogGenerateError err \<in> set (trace (exchange env history msg))
     \<and> chat env history (Some \<lparr>Msg = msg\<rparr>)
         = Some (JSON 201 ''message'' [], evict (history @ [''User: '' @ msg, ''Assistant: '']))"
proof -
  assume s: "startup env = None" and e: "Call env (prompt (exchange env history msg)) = Inl err"
  have r: "response (exchange env history msg) = []"
    by (simp add: response_exchange e)
  have w: "window (exchange env history msg) = evict (history @ [''User: '' @ msg, ''Assistant: ''])"
    by (simp add: window_exchange r)
  have t: "LogGenerateError err \<in> set (trace (exchange env history msg))"
    by (subst trace_exchange) (simp add: e)
  show ?thesis
    by (simp add: RAG_started [OF s] r w t chat_def)
qed

theorem generation_error_recorded_witness:
  "startup mute = None
   \<and> Call mute (prompt (exchange mute chatContext ''hi'')) = Inl (Err ''generation failed'')
   \<and> response (exchange mute chatContext ''hi'') = []
   \<and> window (exchange mute chatContext ''hi'') = [''User: hi'', ''Assistant: '']
   \<and> LogGenerateError (Err ''generation failed'') \<in> set (trace (exchange mute chatContext ''hi''))"
proof -
  have e: "Call mute (prompt (exchange mute chatContext ''hi'')) = Inl (Err ''generation failed'')"
    by (simp add: mute_def)
  from generation_error_recorded [OF startup_mute e] e startup_mute
  show ?thesis by (simp add: evict_def maxContextLength_def chatContext_def)
qed

text \<open>
  C7, as the claim states it, fails: when the responder fails on the first request
  \<^verbatim>\<open>hi\<close>, the window holds the assistant turn \<^verbatim>\<open>Assistant: \<close> after the user turn, and
  the string returned, and sent with status 201, is empty.
\<close>

theorem generation_error_appends_empty_turn:
  "Call mute (prompt (exchange mute chatContext ''hi'')) = Inl (Err ''generation failed'')
   \<and> RAG mute chatContext ''hi'' = Returned (exchange mute chatContext ''hi'')
   \<and> window (exchange mute chatContext ''hi'') = [''User: hi'', ''Assistant: '']
   \<and> response (exchange mute chatContext ''hi'') = []
   \<and> chat mute chatContext (Some \<lparr>Msg = ''hi''\<rparr>)
       = Some (JSON 201 ''message'' [], [''User: hi'', ''Assistant: ''])"
proof -
  have e: "Call mute p = Inl (Err ''generation failed'')" for p
    by (simp add: mute_def)
  show ?thesis
    by (simp add: e RAG_mute window_mute response_exchange chat_def evict_def
        maxContextLength_def chatContext_def)
qed

text \<open>
  C9. For every request that completes, the context passed to prompt assembly is the
  window on entry followed by the current user turn, \<^verbatim>\<open>User: \<close> and the message, as its
  last entry. The context block of the prompt therefore ends with that turn, and the
  message appears a second time where the user-query format is rendered.
\<close>

theorem prompt_holds_current_user_turn:
  "RAG env history msg = Returned r \<Longrightarrow>
     prompt r = constructPrompt (history @ [''User: '' @ msg])
                  (case SimilaritySearch env msg 3 of Inl err \<Rightarrow> [] | Inr docs \<Rightarrow> docs)
                  msg defaultPromptTemplate
     \<and> last (history @ [''User: '' @ msg]) = ''User: '' @ msg
     \<and> suffix (''User: '' @ msg) (Join (history @ [''User: '' @ msg]) ''\<newline>'')
     \<and> prompt r
         = SystemMessage defaultPromptTemplate @ ''\<newline>\<newline>''
           @ ''Previous conversation:\<newline>''
           @ Join (history @ [''User: '' @ msg]) ''\<newline>'' @ ''\<newline>\<newline>''
           @ (case SimilaritySearch env msg 3 of
                Inl err \<Rightarrow> []
              | Inr docs \<Rightarrow>
                  if docs = [] then []
                  else ''Relevant information:\<newline>''
                       @ concat (map (\<lambda>doc. PageContent doc @ ''\<newline>'') docs)
                       @ ''\<newline>\<newline>'')
           @ ''%!(EXTRA string='' @ msg @ '')''"
proof -
  assume "RAG env history msg = Returned r"
  then have r: "r = exchange env history msg"
    by (simp add: RAG_Returned)
  have j: "suffix (''User: '' @ msg) (Join (history @ [''User: '' @ msg]) ''\<newline>'')"
    by (simp add: Join_snoc suffix_def)
  show ?thesis
    unfolding r prompt_exchange
    using j
    by (simp add: constructPrompt_blocks Sprintf_ContextFormat Sprintf_RelevantInfoFormat
        Sprintf_UserQueryFormat split: sum.splits)
qed

theorem prompt_holds_current_user_turn_witness:
  "RAG quiet [''User: a'', ''Assistant: ok''] ''hi''
     = Returned (exchange quiet [''User: a'', ''Assistant: ok''] ''hi'')
   \<and> prompt (exchange quiet [''User: a'', ''Assistant: ok''] ''hi'')
       = SystemMessage defaultPromptTemplate
         @ ''\<newline>\<newline>Previous conversation:\<newline>User: a\<newline>Assistant: ok\<newline>User: hi\<newline>\<newline>%!(EXTRA string=hi)''"
proof -
  have s: "SimilaritySearch quiet ''hi'' 3 = Inr []"
    by (simp add: quiet_def)
  note all = prompt_holds_current_user_turn
                [OF RAG_quiet, of "[''User: a'', ''Assistant: ok'']" "''hi''"]
  from all [THEN conjunct2, THEN conjunct2, THEN conjunct2]
  show ?thesis by (simp add: RAG_quiet s)
qed

text \<open>
  C8. The claim asks that every access to the window be made while the mutex is held.
  The code takes the mutex for the two appends and the eviction check, and reads the
  window at line 127, to pass it to prompt assembly, after releasing the mutex at line
  120: the trace of every request is not guarded, and it is guarded once the access of
  line 127 is taken out.
\<close>

theorem snapshot_read_unguarded:
  "\<not> guarded False (trace (exchange env history msg))
   \<and> guarded False (filter (\<lambda>e. e \<noteq> ContextAccess 127) (trace (exchange env history msg)))"
  by (simp add: trace_exchange split: sum.splits)

section \<open>Loading the documents\<close>

text \<open>
  C10. When opening the file fails, or parsing it fails, the function returns that
  error, and in no other case does it return an error. Otherwise it returns the
  documents of the records that have at least one field, one document for each such
  record and in the records' order (records with no field are skipped): the page content
  of a document is the first field of its record, and for every further field, at index
  \<open>i\<close> from 1, the metadata maps the key \<^verbatim>\<open>column_\<close> followed by the decimal digits
  of \<open>i\<close> to the field. (The metadata holds a fresh identifier under the key
  \<^verbatim>\<open>id\<close> as well.)
\<close>

theorem readDocumentsFromCSV_result:
  "(case open_file filename of
      Inl err \<Rightarrow> readDocumentsFromCSV open_file new_uuid filename = Inl err
    | Inr file \<Rightarrow>
        (case file of
           Inl err \<Rightarrow> readDocumentsFromCSV open_file new_uuid filename = Inl err
         | Inr records \<Rightarrow>
             (\<exists>docs. readDocumentsFromCSV open_file new_uuid filename = Inr docs
                \<and> list_all2
                     (\<lambda>doc record.
                        PageContent doc = record ! 0
                        \<and> (\<forall>i. 1 \<le> i \<and> i < length record \<longrightarrow>
                              Metadata doc (''column_'' @ Itoa i) = Some (record ! i)))
                     docs (filter (\<lambda>record. 1 \<le> length record) records))))"
  using documents_from_loaded [of new_uuid 0]
  by (simp add: readDocumentsFromCSV_def column_key_def split: sum.splits)

theorem readDocumentsFromCSV_result_witness:
  "readDocumentsFromCSV (\<lambda>name. Inr (Inr [[''flu'', ''rest'', ''mild''], [], [''cold'']]))
      (\<lambda>k. ''id'') ''data.csv''
     = Inr [\<lparr>PageContent = ''flu'',
               Metadata = [''id'' \<mapsto> ''id'', ''column_1'' \<mapsto> ''rest'',
                           ''column_2'' \<mapsto> ''mild'']\<rparr>,
            \<lparr>PageContent = ''cold'', Metadata = [''id'' \<mapsto> ''id'']\<rparr>]
   \<and> list_all2
        (\<lambda>doc record.
           PageContent doc = record ! 0
           \<and> (\<forall>i. 1 \<le> i \<and> i < length record \<longrightarrow>
                 Metadata doc (''column_'' @ Itoa i) = Some (record ! i)))
        [\<lparr>PageContent = ''flu'',
           Metadata = [''id'' \<mapsto> ''id'', ''column_1'' \<mapsto> ''rest'',
                       ''column_2'' \<mapsto> ''mild'']\<rparr>,
         \<lparr>PageContent = ''cold'', Metadata = [''id'' \<mapsto> ''id'']\<rparr>]
        [[''flu'', ''rest'', ''mild''], [''cold'']]"
proof -
  have run: "readDocumentsFromCSV (\<lambda>name. Inr (Inr [[''flu'', ''rest'', ''mild''], [], [''cold'']]))
               (\<lambda>k. ''id'') ''data.csv''
             = Inr [\<lparr>PageContent = ''flu'',
                      Metadata = [''id'' \<mapsto> ''id'', ''column_1'' \<mapsto> ''rest'',
                                  ''column_2'' \<mapsto> ''mild'']\<rparr>,
                    \<lparr>PageContent = ''cold'', Metadata = [''id'' \<mapsto> ''id'']\<rparr>]"
    by (simp only: readDocumentsFromCSV_def sum.case documents_example)
  from readDocumentsFromCSV_result
         [where open_file = "\<lambda>name. Inr (Inr [[''flu'', ''rest'', ''mild''], [], [''cold'']])"
            and filename = "''data.csv''" and new_uuid = "\<lambda>k. ''id''"]
  show ?thesis
    unfolding run by simp
qed

end
